theory Spec2Isabelle
  imports Main "HOL-Library.Word" "HOL-Library.Sublist"
begin

section \<open>The greeter of the Microsandbox SDKs\<close>

text \<open>
  The repository holds one operation, written twice: \<^verbatim>\<open>microsandbox_greet\<close> in
  \<^verbatim>\<open>sdk/c/src/microsandbox.c\<close> and \<^verbatim>\<open>microsandbox::greet\<close> in
  \<^verbatim>\<open>sdk/cpp/src/microsandbox.cpp\<close>. Both build a greeting, print it and return it.
  The C function works on memory it obtains from \<^verbatim>\<open>malloc\<close>, so its model passes a
  world (the heap and the standard output stream) through the calls of the C library,
  and every way in which such a call can go wrong is a value of the result type.
\<close>

subsection \<open>Characters and C strings\<close>

definition NUL :: char where
  "NUL = CHR 0x00"

definition newline :: char where
  "newline = CHR 0x0A"

text \<open>
  A \<^verbatim>\<open>const char*\<close> argument is modelled by the characters stored from the pointer
  on. The C string it designates is the part before the first \<open>NUL\<close>; the end of
  the list stands for the terminator of a list without one. The null pointer designates
  no string and is not a value of this type.
\<close>

definition c_str :: "char list \<Rightarrow> string" where
  "c_str s = takeWhile (\<lambda>c. c \<noteq> NUL) s"

text \<open>
  \<^verbatim>\<open>size_t\<close> is an unsigned machine integer whose width the sources do not fix: it is
  the type parameter \<open>'w\<close>, and sums of sizes wrap around as they do in C.
\<close>

definition strlen :: "char list \<Rightarrow> 'w::len word" where
  "strlen s = of_nat (length (c_str s))"

text \<open>
  \<^verbatim>\<open>sprintf\<close> and \<^verbatim>\<open>printf\<close> return the number of characters of their output as
  an \<^verbatim>\<open>int\<close>, which is 32 bits wide on the platforms the SDK is built for.
\<close>

definition INT_MAX :: nat where
  "INT_MAX = 2147483647"

subsection \<open>The heap and standard output\<close>

text \<open>
  A block handed out by \<^verbatim>\<open>malloc\<close> has a capacity and the bytes written to it so
  far, from its start; bytes beyond those are indeterminate and are not represented.
\<close>

record block =
  capacity :: nat
  bytes :: "char list"

record world =
  heap :: "nat \<rightharpoonup> block"
  stdout :: string

datatype ptr = NULL | Ptr nat

datatype fault =
    InvalidPointer  \<comment> \<open>a write through a pointer that is no live block\<close>
  | BufferOverflow  \<comment> \<open>a write past the capacity of a block\<close>
  | InvalidRead     \<comment> \<open>a string read that meets no terminator in the written bytes\<close>
  | OutputOverflow  \<comment> \<open>a formatted output of more than \<open>INT_MAX\<close> characters\<close>

text \<open>
  Whether \<^verbatim>\<open>malloc\<close> finds memory, and where, is the C library's choice. An
  allocator is that choice: for a heap and a requested size, \<open>None\<close> when there is no
  memory, otherwise the address of the new block.
\<close>

type_synonym 'w allocator = "(nat \<rightharpoonup> block) \<Rightarrow> 'w word \<Rightarrow> nat option"

definition malloc :: "'w::len allocator \<Rightarrow> 'w word \<Rightarrow> world \<Rightarrow> ptr \<times> world" where
  "malloc al n w =
     (case al (heap w) n of
        None \<Rightarrow> (NULL, w)
      | Some a \<Rightarrow> (Ptr a, w\<lparr>heap := (heap w)(a \<mapsto> \<lparr>capacity = unat n, bytes = []\<rparr>)\<rparr>))"

text \<open>The C string stored at a pointer, when there is one.\<close>

definition str_at :: "world \<Rightarrow> ptr \<Rightarrow> string option" where
  "str_at w p =
     (case p of
        NULL \<Rightarrow> None
      | Ptr a \<Rightarrow>
          (case heap w a of
             None \<Rightarrow> None
           | Some b \<Rightarrow> if NUL \<in> set (bytes b) then Some (c_str (bytes b)) else None))"

text \<open>
  \<^verbatim>\<open>sprintf(dst, "%s%s%s", s1, s2, s3)\<close>: the three strings and a terminator are
  written from the start of the block at \<open>dst\<close>. \<^verbatim>\<open>sprintf\<close> does not know the
  capacity; writing past it is the fault \<open>BufferOverflow\<close>. An output of more than
  \<open>INT_MAX\<close> characters has no length that the \<^verbatim>\<open>int\<close> result can hold: the call
  fails (\<^verbatim>\<open>EOVERFLOW\<close>), and what it has written by then differs between C
  libraries, from the text without its end to padding that runs past the block. The
  caller does not look at the result, so nothing determined follows: it is the fault
  \<open>OutputOverflow\<close>.
\<close>

definition sprintf_sss :: "ptr \<Rightarrow> char list \<Rightarrow> char list \<Rightarrow> char list \<Rightarrow> world \<Rightarrow> fault + world" where
  "sprintf_sss dst s1 s2 s3 w =
     (case dst of
        NULL \<Rightarrow> Inl InvalidPointer
      | Ptr a \<Rightarrow>
          (case heap w a of
             None \<Rightarrow> Inl InvalidPointer
           | Some b \<Rightarrow>
               (let out = c_str s1 @ c_str s2 @ c_str s3 @ [NUL] in
                if INT_MAX < length (c_str s1 @ c_str s2 @ c_str s3) then Inl OutputOverflow
                else if length out \<le> capacity b
                then Inr (w\<lparr>heap := (heap w)(a \<mapsto> b\<lparr>bytes := out @ drop (length out) (bytes b)\<rparr>)\<rparr>)
                else Inl BufferOverflow)))"

text \<open>
  \<^verbatim>\<open>printf("%s\n", s)\<close>: the string at \<open>s\<close> and a newline are appended to standard
  output. The stream is taken to accept every write. As for \<^verbatim>\<open>sprintf\<close>, an output of
  more than \<open>INT_MAX\<close> characters, the newline counted, is the fault
  \<open>OutputOverflow\<close>: the call fails and what has reached the stream is not determined.
\<close>

definition printf_s_nl :: "ptr \<Rightarrow> world \<Rightarrow> fault + world" where
  "printf_s_nl s w =
     (case str_at w s of
        None \<Rightarrow> Inl InvalidRead
      | Some text \<Rightarrow>
          if INT_MAX < length (text @ [newline]) then Inl OutputOverflow
          else Inr (w\<lparr>stdout := stdout w @ text @ [newline]\<rparr>))"

subsection \<open>The C variant\<close>

definition prefix_lit :: "char list" where
  "prefix_lit = ''Hello, ''"

definition suffix_lit :: "char list" where
  "suffix_lit = ''! Welcome to Microsandbox!''"

definition total_length :: "char list \<Rightarrow> 'w::len word" where
  "total_length name = strlen prefix_lit + strlen name + strlen suffix_lit + 1"

definition microsandbox_greet :: "'w::len allocator \<Rightarrow> char list \<Rightarrow> world \<Rightarrow> fault + (ptr \<times> world)" where
  "microsandbox_greet al name w =
     (case malloc al (total_length name) w of
        (message, w1) \<Rightarrow>
          if message = NULL then Inr (NULL, w1)
          else
            (case sprintf_sss message prefix_lit name suffix_lit w1 of
               Inl e \<Rightarrow> Inl e
             | Inr w2 \<Rightarrow>
                 (case printf_s_nl message w2 of
                    Inl e \<Rightarrow> Inl e
                  | Inr w3 \<Rightarrow> Inr (message, w3))))"

subsection \<open>The C++ variant\<close>

text \<open>
  A \<^verbatim>\<open>std::string\<close> is a value: any sequence of characters, \<open>NUL\<close> included.
  \<^verbatim>\<open>std::endl\<close> writes a newline and flushes; buffering is not part of the world.
  \<open>greet\<close> is the function as it runs when its strings get their storage.
\<close>

definition greet :: "string \<Rightarrow> world \<Rightarrow> string \<times> world" where
  "greet name w =
     (let message = ''Hello, '' @ name @ ''! Welcome to Microsandbox!'';
          w' = w\<lparr>stdout := stdout w @ message @ [newline]\<rparr>
      in (message, w'))"

text \<open>
  A \<^verbatim>\<open>std::string\<close> takes its storage from the C++ runtime, which throws
  \<^verbatim>\<open>std::bad_alloc\<close> when it has none. A storage is the runtime's answer to a
  request: whether a string of that many characters can be held. Each of the two
  \<^verbatim>\<open>operator+\<close> of line 5 builds a string and so makes a request, before anything is
  printed; the function catches nothing, so the exception leaves it, with the world as
  it was.
\<close>

datatype cpp_exception = bad_alloc

type_synonym storage = "nat \<Rightarrow> bool"

definition string_plus :: "storage \<Rightarrow> string \<Rightarrow> string \<Rightarrow> cpp_exception + string" where
  "string_plus st a b = (if st (length a + length b) then Inr (a @ b) else Inl bad_alloc)"

definition greet_throwing :: "storage \<Rightarrow> string \<Rightarrow> world \<Rightarrow> (cpp_exception + string) \<times> world" where
  "greet_throwing st name w =
     (case string_plus st ''Hello, '' name of
        Inl e \<Rightarrow> (Inl e, w)
      | Inr hello \<Rightarrow>
          (case string_plus st hello ''! Welcome to Microsandbox!'' of
             Inl e \<Rightarrow> (Inl e, w)
           | Inr message \<Rightarrow> (Inr message, w\<lparr>stdout := stdout w @ message @ [newline]\<rparr>)))"

subsection \<open>Worlds, allocators, storages and names to run the code on\<close>

definition empty_world :: world where
  "empty_world = \<lparr>heap = Map.empty, stdout = []\<rparr>"

definition alloc_at :: "nat \<Rightarrow> 'w::len allocator" where
  "alloc_at a h n = Some a"

definition out_of_memory :: "'w::len allocator" where
  "out_of_memory h n = None"

definition storage_up_to :: "nat \<Rightarrow> storage" where
  "storage_up_to k n = (n \<le> k)"

text \<open>A name of 2 GiB less 7 bytes: its greeting is 27 characters longer than \<open>INT_MAX\<close>.\<close>

definition long_name :: string where
  "long_name = replicate 2147483641 (CHR ''a'')"

section \<open>Facts about the C library model\<close>

lemma c_str_prefix_lit: "c_str prefix_lit = ''Hello, ''"
  by (simp add: c_str_def prefix_lit_def NUL_def)

lemma c_str_suffix_lit: "c_str suffix_lit = ''! Welcome to Microsandbox!''"
  by (simp add: c_str_def suffix_lit_def NUL_def)

lemma NUL_notin_c_str: "NUL \<notin> set (c_str s)"
  by (auto simp: c_str_def dest: set_takeWhileD)

lemma c_str_idem: "NUL \<notin> set s \<Longrightarrow> c_str s = s"
  by (auto simp: c_str_def)

lemma c_str_terminated: "NUL \<notin> set s \<Longrightarrow> c_str (s @ NUL # t) = s"
  by (simp add: c_str_def takeWhile_append)

lemma str_at_written:
  "heap w a = Some b \<Longrightarrow> bytes b = s @ NUL # t \<Longrightarrow> NUL \<notin> set s \<Longrightarrow> str_at w (Ptr a) = Some s"
  by (simp add: str_at_def c_str_terminated)

lemma str_at_stdout_update: "str_at (w\<lparr>stdout := s\<rparr>) p = str_at w p"
  by (simp add: str_at_def split: ptr.split)

text \<open>
  The size computed for the buffer is the length of the name plus 34, modulo the range
  of \<^verbatim>\<open>size_t\<close>; it is that number itself when the number fits \<^verbatim>\<open>size_t\<close>.
\<close>

lemma total_length_of_nat:
  "(total_length name :: 'w::len word) = of_nat (length (c_str name) + 34)"
  by (simp add: total_length_def strlen_def c_str_prefix_lit c_str_suffix_lit)

lemma unat_total_length:
  "length (c_str name) + 34 < 2 ^ LENGTH('w::len) \<Longrightarrow>
   unat (total_length name :: 'w word) = length (c_str name) + 34"
  by (simp add: total_length_of_nat unat_of_nat del: of_nat_add)

text \<open>What \<^verbatim>\<open>sprintf\<close> has written is the string that is read back.\<close>

lemma sprintf_sss_str_at:
  assumes "sprintf_sss (Ptr a) s1 s2 s3 w = Inr w'"
  shows "str_at w' (Ptr a) = Some (c_str s1 @ c_str s2 @ c_str s3)"
proof -
  let ?out = "c_str s1 @ c_str s2 @ c_str s3 @ [NUL]"
  from assms obtain b where b: "heap w a = Some b"
    and w': "w' = w\<lparr>heap := (heap w)(a \<mapsto> b\<lparr>bytes := ?out @ drop (length ?out) (bytes b)\<rparr>)\<rparr>"
    by (auto simp: sprintf_sss_def Let_def split: option.splits if_splits)
  have "NUL \<notin> set (c_str s1 @ c_str s2 @ c_str s3)"
    by (simp add: NUL_notin_c_str)
  then show ?thesis
    unfolding w'
    by (intro str_at_written [where t = "drop (length ?out) (bytes b)"
          and b = "b\<lparr>bytes := ?out @ drop (length ?out) (bytes b)\<rparr>"]) simp_all
qed

section \<open>The paths of the C variant\<close>

text \<open>When \<^verbatim>\<open>malloc\<close> returns \<open>NULL\<close> the function returns at once.\<close>

lemma microsandbox_greet_fail:
  "al (heap w) (total_length name) = None \<Longrightarrow> microsandbox_greet al name w = Inr (NULL, w)"
  by (simp add: microsandbox_greet_def malloc_def)

text \<open>
  When \<^verbatim>\<open>malloc\<close> returns a block, the size did not wrap around and the line to
  print has at most \<open>INT_MAX\<close> characters, the call ends in the world that differs
  from the initial one in the new block, filled to its last byte, and in the line
  appended to standard output.
\<close>

lemma microsandbox_greet_ok:
  fixes al :: "'w::len allocator"
  assumes al: "al (heap w) (total_length name) = Some a"
    and fits: "length (c_str name) + 34 < 2 ^ LENGTH('w)"
    and line: "length (c_str name) + 34 \<le> INT_MAX"
  shows "microsandbox_greet al name w =
           Inr (Ptr a,
                w\<lparr>heap := (heap w)(a \<mapsto>
                      \<lparr>capacity = length (c_str name) + 34,
                       bytes = (''Hello, '' @ c_str name @ ''! Welcome to Microsandbox!'') @ [NUL]\<rparr>),
                  stdout := stdout w @ (''Hello, '' @ c_str name @ ''! Welcome to Microsandbox!'') @ [newline]\<rparr>)"
proof -
  let ?g = "''Hello, '' @ c_str name @ ''! Welcome to Microsandbox!''"
  let ?n = "length (c_str name) + 34"
  let ?w1 = "w\<lparr>heap := (heap w)(a \<mapsto> \<lparr>capacity = ?n, bytes = []\<rparr>)\<rparr>"
  let ?w2 = "w\<lparr>heap := (heap w)(a \<mapsto> \<lparr>capacity = ?n, bytes = ?g @ [NUL]\<rparr>)\<rparr>"
  have m: "malloc al (total_length name) w = (Ptr a, ?w1)"
    using al unat_total_length [OF fits] by (simp add: malloc_def)
  have s: "sprintf_sss (Ptr a) prefix_lit name suffix_lit ?w1 = Inr ?w2"
    using line by (simp add: sprintf_sss_def c_str_prefix_lit c_str_suffix_lit)
  have "NUL \<notin> set ?g"
    using NUL_notin_c_str [of name] by (simp add: NUL_def)
  then have "str_at ?w2 (Ptr a) = Some ?g"
    using str_at_written [of ?w2 a "\<lparr>capacity = ?n, bytes = ?g @ [NUL]\<rparr>" ?g "[]"]
    by simp
  moreover have "\<not> INT_MAX < length (?g @ [newline])"
    using line by simp
  ultimately have p: "printf_s_nl (Ptr a) ?w2 = Inr (?w2\<lparr>stdout := stdout w @ ?g @ [newline]\<rparr>)"
    by (simp add: printf_s_nl_def)
  show ?thesis
    by (simp only: microsandbox_greet_def m s p prod.case ptr.distinct if_False sum.case)
qed

text \<open>
  When \<^verbatim>\<open>malloc\<close> returns a block that \<^verbatim>\<open>size_t\<close> can size and the greeting has
  more than \<open>INT_MAX\<close> characters, the call of \<^verbatim>\<open>sprintf\<close> overflows.
\<close>

lemma microsandbox_greet_overflow:
  fixes al :: "'w::len allocator"
  assumes al: "al (heap w) (total_length name) = Some a"
    and long: "INT_MAX < length (c_str name) + 33"
  shows "microsandbox_greet al name w = Inl OutputOverflow"
  using al long
  by (simp add: microsandbox_greet_def malloc_def sprintf_sss_def c_str_prefix_lit c_str_suffix_lit)

text \<open>
  Whenever the function returns a pointer, with or without a wrapped size, the string
  at the pointer is the greeting.
\<close>

lemma microsandbox_greet_Inr_Ptr:
  assumes "microsandbox_greet al name w = Inr (Ptr a, w')"
  shows "str_at w' (Ptr a) = Some (''Hello, '' @ c_str name @ ''! Welcome to Microsandbox!'')"
proof -
  from assms obtain w1 w2 where m: "malloc al (total_length name) w = (Ptr a, w1)"
    and s: "sprintf_sss (Ptr a) prefix_lit name suffix_lit w1 = Inr w2"
    and p: "printf_s_nl (Ptr a) w2 = Inr w'"
    by (auto simp: microsandbox_greet_def split: prod.splits if_splits sum.splits)
  from p obtain t where "w' = w2\<lparr>stdout := stdout w2 @ t @ [newline]\<rparr>"
    by (auto simp: printf_s_nl_def split: option.splits if_splits)
  then have "str_at w' (Ptr a) = str_at w2 (Ptr a)"
    by (simp add: str_at_stdout_update)
  with sprintf_sss_str_at [OF s] show ?thesis
    by (simp add: c_str_prefix_lit c_str_suffix_lit)
qed

lemma unat_strlen:
  "length (c_str name) + 34 < 2 ^ LENGTH('w::len) \<Longrightarrow>
   unat (strlen name :: 'w word) = length (c_str name)"
  by (simp add: strlen_def unat_of_nat)

text \<open>
  A successful call of the C variant, for a name that is a C string: the hypotheses
  shared by the properties below give the result of the call.
\<close>

lemma microsandbox_greet_c_string:
  fixes al :: "'w::len allocator"
  assumes nul: "NUL \<notin> set name"
    and fits: "length name + 34 < 2 ^ LENGTH('w)"
    and line: "length name + 34 \<le> INT_MAX"
    and al: "al (heap w) (total_length name) = Some a"
  shows "\<exists>w'. microsandbox_greet al name w = Inr (Ptr a, w') \<and>
              str_at w' (Ptr a) = Some (''Hello, '' @ name @ ''! Welcome to Microsandbox!'')"
proof -
  from nul have c: "c_str name = name"
    by (rule c_str_idem)
  from fits line c have "length (c_str name) + 34 < 2 ^ LENGTH('w)"
    and "length (c_str name) + 34 \<le> INT_MAX"
    by simp_all
  with al microsandbox_greet_ok [where al = al and w = w and name = name and a = a]
  obtain w' where r: "microsandbox_greet al name w = Inr (Ptr a, w')"
    by blast
  from microsandbox_greet_Inr_Ptr [OF r] c r show ?thesis
    by simp
qed

text \<open>A call leaves every block other than the one it returns as it was.\<close>

lemma microsandbox_greet_frame:
  assumes "microsandbox_greet al name w = Inr (p, w')" and "p \<noteq> Ptr a'"
  shows "heap w' a' = heap w a'"
  using assms
  by (auto simp: microsandbox_greet_def malloc_def sprintf_sss_def printf_s_nl_def Let_def
      split: option.splits if_splits sum.splits ptr.splits)

text \<open>The long name is a C string, and \<^verbatim>\<open>size_t\<close> of 64 bits sizes its buffer.\<close>

lemma NUL_notin_long_name: "NUL \<notin> set long_name"
  by (simp add: long_name_def NUL_def)

lemma c_str_long_name: "c_str long_name = long_name"
  by (rule c_str_idem [OF NUL_notin_long_name])

lemma length_long_name: "length long_name = 2147483641"
  by (simp add: long_name_def)

lemma microsandbox_greet_long_name:
  "microsandbox_greet (alloc_at a :: 64 allocator) long_name w = Inl OutputOverflow"
  by (rule microsandbox_greet_overflow)
    (simp_all add: alloc_at_def c_str_long_name length_long_name INT_MAX_def)

section \<open>The paths of the C++ variant\<close>

text \<open>
  With storage for both strings the call is \<open>greet\<close>; without, it throws and the world
  is unchanged.
\<close>

lemma string_plus_hello:
  "string_plus st ''Hello, '' name =
     (if st (length name + 7) then Inr (''Hello, '' @ name) else Inl bad_alloc)"
proof -
  have "length ''Hello, '' + length name = length name + 7"
    by simp
  then show ?thesis
    by (simp only: string_plus_def)
qed

lemma string_plus_welcome:
  "string_plus st (''Hello, '' @ name) ''! Welcome to Microsandbox!'' =
     (if st (length name + 33) then Inr (''Hello, '' @ name @ ''! Welcome to Microsandbox!'')
      else Inl bad_alloc)"
proof -
  have "length (''Hello, '' @ name) + length ''! Welcome to Microsandbox!'' = length name + 33"
    by simp
  then show ?thesis
    by (simp only: string_plus_def append_assoc)
qed

lemma greet_throwing_eq:
  "greet_throwing st name w =
     (if st (length name + 7) \<and> st (length name + 33)
      then (Inr (fst (greet name w)), snd (greet name w))
      else (Inl bad_alloc, w))"
  by (cases "st (length name + 7)"; cases "st (length name + 33)";
      simp only: greet_throwing_def string_plus_hello string_plus_welcome greet_def Let_def
        if_True if_False sum.case fst_conv snd_conv simp_thms)

section \<open>Properties of the greeter\<close>

text \<open>
  In the properties of the C variant, a name is a C string when it holds no \<open>NUL\<close>
  (for any other list the function sees \<open>c_str name\<close>, the part before the first),
  and allocation succeeds when the allocator answers the request for
  \<open>total_length name\<close> bytes with an address. Two bounds on the length of the name
  occur. Neither is tested by the function.

  \<^item> \<open>length (c_str name) + 34 < 2 ^ LENGTH('w)\<close>: the size of the buffer is a value of
    \<^verbatim>\<open>size_t\<close>. It holds of every string a program can be handed: the name, its
    terminator and the two literals of the function, 8 and 27 bytes with theirs, lie
    in an address space of \<open>2 ^ LENGTH('w)\<close> bytes.

  \<^item> \<open>length (c_str name) + 34 \<le> INT_MAX\<close>: the line that \<^verbatim>\<open>printf\<close> writes, and
    with it the greeting that \<^verbatim>\<open>sprintf\<close> writes, has a length that an \<^verbatim>\<open>int\<close>
    can hold. Where \<^verbatim>\<open>size_t\<close> has 64 bits a program can be handed a longer name,
    and \<open>long_name\<close> is one: a name of more than 2147483613 characters is where the C
    variant, which ignores what \<^verbatim>\<open>sprintf\<close> and \<^verbatim>\<open>printf\<close> return, goes wrong,
    and where the C++ variant, which has no such limit, does not.
\<close>



text \<open>
  C3. A failed allocation is to be the only failure of the C variant. The null pointer
  is indeed returned exactly when allocation fails (\<open>microsandbox_greet_fail\<close>,
  \<open>microsandbox_greet_Inr_Ptr\<close>), but for \<open>long_name\<close> the allocation succeeds and the
  call fails all the same, in \<^verbatim>\<open>sprintf\<close>.
\<close>

theorem failure_with_successful_allocation:
  "(alloc_at 4096 :: 64 allocator) (heap empty_world) (total_length long_name) \<noteq> None \<and>
   microsandbox_greet (alloc_at 4096 :: 64 allocator) long_name empty_world \<noteq> Inr (NULL, empty_world) \<and>
   microsandbox_greet (alloc_at 4096 :: 64 allocator) long_name empty_world = Inl OutputOverflow"
  by (simp add: alloc_at_def microsandbox_greet_long_name)

text \<open>
  C4, as stated, asks for the line on standard output in every call, also in a call of
  the C variant whose allocation fails. Run with an allocator that has no memory, the C
  variant returns the null pointer and standard output is what it was.
\<close>

theorem greet_output_counterexample:
  "microsandbox_greet (out_of_memory :: 64 allocator) ''Test'' empty_world = Inr (NULL, empty_world) \<and>
   stdout empty_world \<noteq> stdout empty_world @ ''Hello, Test! Welcome to Microsandbox!'' @ [newline]"
  by (simp add: microsandbox_greet_def malloc_def out_of_memory_def)

text \<open>
  C4, amended. Every call in which allocation does not fail (a call of the C++ variant
  whose strings get their storage, so that no \<^verbatim>\<open>std::bad_alloc\<close> is thrown; a call of
  the C variant whose \<^verbatim>\<open>malloc\<close> succeeds) and, in the C variant, whose name has at
  most 2147483613 characters, so that the line has a length \<^verbatim>\<open>printf\<close> can return,
  appends to standard output exactly the returned string followed by a newline, the line
  \<open>''Hello, '' @ name @ ''! Welcome to Microsandbox!''\<close>, and changes nothing else: the
  C++ variant leaves the heap as it was, and the C variant adds to it only the block that
  it returns.
\<close>

theorem greet_output_on_success:
  fixes al :: "'w::len allocator"
  shows "(st (length name + 7) \<longrightarrow> st (length name + 33) \<longrightarrow>
          greet_throwing st name w =
            (Inr (''Hello, '' @ name @ ''! Welcome to Microsandbox!''),
             w\<lparr>stdout := stdout w @ (''Hello, '' @ name @ ''! Welcome to Microsandbox!'') @ [newline]\<rparr>)) \<and>
         (NUL \<notin> set name \<longrightarrow> length name + 34 < 2 ^ LENGTH('w) \<longrightarrow>
          length name + 34 \<le> INT_MAX \<longrightarrow>
          al (heap w) (total_length name) = Some a \<longrightarrow>
          (\<exists>w' b. microsandbox_greet al name w = Inr (Ptr a, w') \<and>
                str_at w' (Ptr a) = Some (''Hello, '' @ name @ ''! Welcome to Microsandbox!'') \<and>
                w' = w\<lparr>heap := (heap w)(a \<mapsto> b),
                        stdout := stdout w @ (''Hello, '' @ name @ ''! Welcome to Microsandbox!'') @ [newline]\<rparr>))"
proof (intro conjI impI)
  let ?g = "''Hello, '' @ name @ ''! Welcome to Microsandbox!''"
  assume "st (length name + 7)" and "st (length name + 33)"
  then have "greet_throwing st name w = (Inr (fst (greet name w)), snd (greet name w))"
    by (simp only: greet_throwing_eq simp_thms if_True)
  then show "greet_throwing st name w = (Inr ?g, w\<lparr>stdout := stdout w @ ?g @ [newline]\<rparr>)"
    by (simp only: greet_def Let_def fst_conv snd_conv)
next
  let ?g = "''Hello, '' @ name @ ''! Welcome to Microsandbox!''"
  assume nul: "NUL \<notin> set name" and fits: "length name + 34 < 2 ^ LENGTH('w)"
    and line: "length name + 34 \<le> INT_MAX"
    and al: "al (heap w) (total_length name) = Some a"
  from nul have c: "c_str name = name"
    by (rule c_str_idem)
  with fits line have "length (c_str name) + 34 < 2 ^ LENGTH('w)"
    and "length (c_str name) + 34 \<le> INT_MAX"
    by simp_all
  with al microsandbox_greet_ok [where al = al and w = w and name = name and a = a]
  have r: "microsandbox_greet al name w =
      Inr (Ptr a, w\<lparr>heap := (heap w)(a \<mapsto> \<lparr>capacity = length (c_str name) + 34,
                                             bytes = (''Hello, '' @ c_str name @ ''! Welcome to Microsandbox!'') @ [NUL]\<rparr>),
                     stdout := stdout w @ (''Hello, '' @ c_str name @ ''! Welcome to Microsandbox!'') @ [newline]\<rparr>)"
    by blast
  from microsandbox_greet_Inr_Ptr [OF r] r c
  show "\<exists>w' b. microsandbox_greet al name w = Inr (Ptr a, w') \<and>
       str_at w' (Ptr a) = Some ?g \<and>
       w' = w\<lparr>heap := (heap w)(a \<mapsto> b), stdout := stdout w @ ?g @ [newline]\<rparr>"
    by (simp only: sum.inject prod.inject simp_thms ex_simps) blast
qed

theorem greet_output_on_success_witness:
  "storage_up_to 4096 (length ''Test'' + 7) \<and> storage_up_to 4096 (length ''Test'' + 33) \<and>
   greet_throwing (storage_up_to 4096) ''Test'' empty_world =
     (Inr ''Hello, Test! Welcome to Microsandbox!'',
      empty_world\<lparr>stdout := stdout empty_world @ ''Hello, Test! Welcome to Microsandbox!'' @ [newline]\<rparr>) \<and>
   NUL \<notin> set ''Test'' \<and> length ''Test'' + 34 < (2::nat) ^ LENGTH(64) \<and>
   length ''Test'' + 34 \<le> INT_MAX \<and>
   (alloc_at 4096 :: 64 allocator) (heap empty_world) (total_length ''Test'') = Some 4096 \<and>
   (\<exists>w' b. microsandbox_greet (alloc_at 4096 :: 64 allocator) ''Test'' empty_world = Inr (Ptr 4096, w') \<and>
      str_at w' (Ptr 4096) = Some ''Hello, Test! Welcome to Microsandbox!'' \<and>
      w' = empty_world\<lparr>heap := (heap empty_world)(4096 \<mapsto> b),
              stdout := stdout empty_world @ ''Hello, Test! Welcome to Microsandbox!'' @ [newline]\<rparr>)"
  using greet_output_on_success
    [of "storage_up_to 4096" "''Test''" empty_world "alloc_at 4096 :: 64 allocator" 4096]
  by (simp add: NUL_def alloc_at_def storage_up_to_def INT_MAX_def)


text \<open>
  C6. For the empty name the greeter returns exactly
  \<open>''Hello, ! Welcome to Microsandbox!''\<close>: the C++ variant as its value, the C
  variant, when allocation succeeds, as the string at the pointer it returns. For the
  empty name the bound on the size says that 34 is a value of \<^verbatim>\<open>size_t\<close>, which
  has 16 bits or more in C.
\<close>

theorem greet_empty_name:
  fixes al :: "'w::len allocator"
  shows "fst (greet [] w) = ''Hello, ! Welcome to Microsandbox!'' \<and>
         ((34::nat) < 2 ^ LENGTH('w) \<longrightarrow> al (heap w) (total_length []) = Some a \<longrightarrow>
          (\<exists>w'. microsandbox_greet al [] w = Inr (Ptr a, w') \<and>
                str_at w' (Ptr a) = Some ''Hello, ! Welcome to Microsandbox!''))"
proof (intro conjI impI)
  show "fst (greet [] w) = ''Hello, ! Welcome to Microsandbox!''"
    by (simp add: greet_def)
  assume "(34::nat) < 2 ^ LENGTH('w)" and al: "al (heap w) (total_length []) = Some a"
  then have "length ([] :: char list) + 34 < 2 ^ LENGTH('w)"
    by simp
  moreover have "length ([] :: char list) + 34 \<le> INT_MAX"
    by (simp add: INT_MAX_def)
  ultimately
  have "\<exists>w'. microsandbox_greet al [] w = Inr (Ptr a, w') \<and>
      str_at w' (Ptr a) = Some (''Hello, '' @ [] @ ''! Welcome to Microsandbox!'')"
    using microsandbox_greet_c_string [where al = al and w = w and name = "[]" and a = a] al
    by simp
  then
  show "\<exists>w'. microsandbox_greet al [] w = Inr (Ptr a, w') \<and>
      str_at w' (Ptr a) = Some ''Hello, ! Welcome to Microsandbox!''"
    by simp
qed

theorem greet_empty_name_witness:
  "fst (greet [] empty_world) = ''Hello, ! Welcome to Microsandbox!'' \<and>
   (34::nat) < 2 ^ LENGTH(64) \<and>
   (alloc_at 4096 :: 64 allocator) (heap empty_world) (total_length []) = Some 4096 \<and>
   (\<exists>w'. microsandbox_greet (alloc_at 4096 :: 64 allocator) [] empty_world = Inr (Ptr 4096, w') \<and>
         str_at w' (Ptr 4096) = Some ''Hello, ! Welcome to Microsandbox!'')"
  using greet_empty_name [of empty_world "alloc_at 4096 :: 64 allocator" 4096]
  by (simp add: alloc_at_def)

text \<open>
  C7. The return value is determined by the name: two successful calls with the same
  name, in any two worlds and with any two allocators, return equal strings, wherever
  the two results are allocated. When the second call follows the first, the two
  pointers hold equal strings after both calls.
\<close>

theorem greet_return_value_is_deterministic:
  assumes r1: "microsandbox_greet al1 name w1 = Inr (Ptr a1, w1')"
    and r2: "microsandbox_greet al2 name w2 = Inr (Ptr a2, w2')"
  shows "fst (greet name w1) = fst (greet name w2) \<and>
         str_at w1' (Ptr a1) = str_at w2' (Ptr a2) \<and>
         str_at w1' (Ptr a1) \<noteq> None \<and>
         (w2 = w1' \<longrightarrow> str_at w2' (Ptr a1) = str_at w2' (Ptr a2))"
proof (intro conjI impI)
  show "fst (greet name w1) = fst (greet name w2)"
    by (simp add: greet_def)
  from microsandbox_greet_Inr_Ptr [OF r1] microsandbox_greet_Inr_Ptr [OF r2]
  show e: "str_at w1' (Ptr a1) = str_at w2' (Ptr a2)" and "str_at w1' (Ptr a1) \<noteq> None"
    by simp_all
  assume s: "w2 = w1'"
  show "str_at w2' (Ptr a1) = str_at w2' (Ptr a2)"
  proof (cases "a1 = a2")
    case True
    then show ?thesis by simp
  next
    case False
    then have "heap w2' a1 = heap w2 a1"
      using microsandbox_greet_frame [OF r2, of a1] by simp
    with s have "str_at w2' (Ptr a1) = str_at w1' (Ptr a1)"
      by (simp add: str_at_def)
    with e show ?thesis by simp
  qed
qed

theorem greet_return_value_is_deterministic_witness:
  "\<exists>w1' w2'.
     microsandbox_greet (alloc_at 4096 :: 64 allocator) ''Test'' empty_world = Inr (Ptr 4096, w1') \<and>
     microsandbox_greet (alloc_at 8192 :: 64 allocator) ''Test'' w1' = Inr (Ptr 8192, w2') \<and>
     fst (greet ''Test'' empty_world) = fst (greet ''Test'' w1') \<and>
     str_at w1' (Ptr 4096) = str_at w2' (Ptr 8192) \<and>
     str_at w1' (Ptr 4096) \<noteq> None \<and>
     str_at w2' (Ptr 4096) = str_at w2' (Ptr 8192)"
proof -
  have f: "length (c_str ''Test'') + 34 < (2::nat) ^ LENGTH(64)"
    "length (c_str ''Test'') + 34 \<le> INT_MAX"
    by (simp_all add: c_str_def NUL_def INT_MAX_def)
  have "(alloc_at 4096 :: 64 allocator) (heap empty_world) (total_length ''Test'') = Some 4096"
    by (simp add: alloc_at_def)
  with f microsandbox_greet_ok [where al = "alloc_at 4096 :: 64 allocator" and w = empty_world
      and name = "''Test''" and a = 4096]
  obtain w1' where r1: "microsandbox_greet (alloc_at 4096 :: 64 allocator) ''Test'' empty_world = Inr (Ptr 4096, w1')"
    by blast
  have "(alloc_at 8192 :: 64 allocator) (heap w1') (total_length ''Test'') = Some 8192"
    by (simp add: alloc_at_def)
  with f microsandbox_greet_ok [where al = "alloc_at 8192 :: 64 allocator" and w = w1'
      and name = "''Test''" and a = 8192]
  obtain w2' where r2: "microsandbox_greet (alloc_at 8192 :: 64 allocator) ''Test'' w1' = Inr (Ptr 8192, w2')"
    by blast
  from greet_return_value_is_deterministic [OF r1 r2] r1 r2 show ?thesis
    by blast
qed

text \<open>
  C8, as stated, leaves the C++ variant no error path. A runtime with storage for
  strings of at most 22 characters cannot hold the greeting of \<open>''Test''\<close>: the call
  throws \<^verbatim>\<open>std::bad_alloc\<close> and prints nothing.
\<close>

theorem greet_is_total_counterexample:
  "greet_throwing (storage_up_to 22) ''Test'' empty_world = (Inl bad_alloc, empty_world)"
  by (simp add: greet_throwing_eq storage_up_to_def)

text \<open>
  C8, amended. For every name, the empty one and names of any content included, the
  greeter returns the greeting or signals that allocation failed, and does nothing else;
  the code checks neither the length nor the content of the name. The C++ variant
  returns the greeting when its two strings get their storage and throws
  \<^verbatim>\<open>std::bad_alloc\<close> otherwise. The C variant, for a name of at most 2147483613
  characters, returns without a fault either the null pointer, exactly when
  \<^verbatim>\<open>malloc\<close> fails, or a pointer to the greeting of the string it was given.
\<close>

theorem greet_is_total:
  fixes al :: "'w::len allocator"
  shows "fst (greet_throwing st name w) =
           (if st (length name + 7) \<and> st (length name + 33)
            then Inr (''Hello, '' @ name @ ''! Welcome to Microsandbox!'')
            else Inl bad_alloc) \<and>
         (length (c_str name) + 34 < 2 ^ LENGTH('w) \<longrightarrow> length (c_str name) + 34 \<le> INT_MAX \<longrightarrow>
          (\<exists>p w'. microsandbox_greet al name w = Inr (p, w') \<and>
            (p = NULL \<longleftrightarrow> al (heap w) (total_length name) = None) \<and>
            (p = NULL \<or>
             str_at w' p = Some (''Hello, '' @ c_str name @ ''! Welcome to Microsandbox!''))))"
proof (intro conjI impI)
  show "fst (greet_throwing st name w) =
      (if st (length name + 7) \<and> st (length name + 33)
       then Inr (''Hello, '' @ name @ ''! Welcome to Microsandbox!'')
       else Inl bad_alloc)"
    by (simp add: greet_throwing_eq greet_def)
next
  assume fits: "length (c_str name) + 34 < 2 ^ LENGTH('w)"
    and line: "length (c_str name) + 34 \<le> INT_MAX"
  show "\<exists>p w'. microsandbox_greet al name w = Inr (p, w') \<and>
            (p = NULL \<longleftrightarrow> al (heap w) (total_length name) = None) \<and>
            (p = NULL \<or>
             str_at w' p = Some (''Hello, '' @ c_str name @ ''! Welcome to Microsandbox!''))"
  proof (cases "al (heap w) (total_length name)")
    case None
    then have "microsandbox_greet al name w = Inr (NULL, w)"
      by (rule microsandbox_greet_fail)
    with None show ?thesis
      by simp
  next
    case (Some a)
    with fits line microsandbox_greet_ok [where al = al and w = w and name = name and a = a]
    obtain w' where r: "microsandbox_greet al name w = Inr (Ptr a, w')"
      by blast
    from microsandbox_greet_Inr_Ptr [OF r] r Some show ?thesis
      by simp
  qed
qed

theorem greet_is_total_witness:
  "fst (greet_throwing (storage_up_to 4096) [] empty_world) = Inr ''Hello, ! Welcome to Microsandbox!'' \<and>
   fst (greet_throwing (storage_up_to 22) [] empty_world) = Inl bad_alloc \<and>
   length (c_str []) + 34 < (2::nat) ^ LENGTH(64) \<and> length (c_str []) + 34 \<le> INT_MAX \<and>
   (\<exists>p w'. microsandbox_greet (alloc_at 4096 :: 64 allocator) [] empty_world = Inr (p, w') \<and>
      p \<noteq> NULL \<and> str_at w' p = Some ''Hello, ! Welcome to Microsandbox!'')"
proof -
  have h: "length (c_str []) + 34 < (2::nat) ^ LENGTH(64)" "length (c_str []) + 34 \<le> INT_MAX"
    by (simp_all add: c_str_def INT_MAX_def)
  from greet_is_total [of "storage_up_to 4096" "[]" empty_world "alloc_at 4096 :: 64 allocator"]
    greet_is_total [of "storage_up_to 22" "[]" empty_world "alloc_at 4096 :: 64 allocator"] h
  show ?thesis
    by (auto simp: alloc_at_def c_str_def storage_up_to_def)
qed

text \<open>
  C9. A call of the C variant in which allocation fails returns the null pointer and
  leaves the world as it was: nothing is written to standard output and the heap is
  unchanged.
\<close>

theorem allocation_failure_is_silent:
  "al (heap w) (total_length name) = None \<Longrightarrow> microsandbox_greet al name w = Inr (NULL, w)"
  by (rule microsandbox_greet_fail)

theorem allocation_failure_is_silent_witness:
  "(out_of_memory :: 64 allocator) (heap empty_world) (total_length ''Test'') = None \<and>
   microsandbox_greet (out_of_memory :: 64 allocator) ''Test'' empty_world = Inr (NULL, empty_world)"
proof -
  have h: "(out_of_memory :: 64 allocator) (heap empty_world) (total_length ''Test'') = None"
    by (simp add: out_of_memory_def)
  from allocation_failure_is_silent [where al = "out_of_memory :: 64 allocator" and w = empty_world
      and name = "''Test''"] h
  show ?thesis
    by simp
qed


end
